theory Spec2Isabelle
  imports Complex_Main
begin

section \<open>JSON values and their serialization\<close>

text \<open>
  Records, request payloads and parsed response bodies are JSON values. Numbers are
  integers; a string is a Python \<^verbatim>\<open>str\<close> whose code points are below 256, one
  \<open>char\<close> per code point. An object keeps its members in order, as a Python dictionary
  does.
\<close>

datatype json =
    JNull
  | JBool bool
  | JNum int
  | JStr string
  | JArr "json list"
  | JObj "(string \<times> json) list"

text \<open>\<^verbatim>\<open>str(n)\<close> for an integer: its decimal digits, with a sign when negative.\<close>

definition digit :: "nat \<Rightarrow> char" where
  "digit n = char_of (48 + n)"

fun dec :: "nat \<Rightarrow> string" where
  "dec n = (if n < 10 then [digit n] else dec (n div 10) @ [digit (n mod 10)])"

declare dec.simps [simp del]

definition str_int :: "int \<Rightarrow> string" where
  "str_int i = (if i < 0 then CHR ''-'' # dec (nat (- i)) else dec (nat i))"

text \<open>
  \<^verbatim>\<open>json.dumps\<close> with its defaults (\<^verbatim>\<open>ensure_ascii=True\<close>, separators
  \<^verbatim>\<open>', '\<close> and \<^verbatim>\<open>': '\<close>). A character of a string is written as it is when it
  is printable ASCII other than the double quote (code 0x22) and the backslash (code
  0x5C); those two and the control characters with a short form are escaped with a
  backslash, every other character as \<^verbatim>\<open>\u00XX\<close> with lower-case hexadecimal
  digits. The output is ASCII, so its UTF-8 encoding has one byte per character.
\<close>

definition hex_digit :: "nat \<Rightarrow> char" where
  "hex_digit n = (if n < 10 then char_of (48 + n) else char_of (87 + n))"

definition escape_char :: "char \<Rightarrow> string" where
  "escape_char c =
     (let n = (of_char c :: nat) in
      if n = 0x22 then [CHR 0x5C, CHR 0x22]
      else if n = 0x5C then [CHR 0x5C, CHR 0x5C]
      else if n = 0x0A then [CHR 0x5C, CHR ''n'']
      else if n = 0x0D then [CHR 0x5C, CHR ''r'']
      else if n = 0x09 then [CHR 0x5C, CHR ''t'']
      else if n = 0x08 then [CHR 0x5C, CHR ''b'']
      else if n = 0x0C then [CHR 0x5C, CHR ''f'']
      else if n < 0x20 \<or> n > 0x7E
        then [CHR 0x5C, CHR ''u'', CHR ''0'', CHR ''0'', hex_digit (n div 16), hex_digit (n mod 16)]
      else [c])"

definition dumps_str :: "string \<Rightarrow> string" where
  "dumps_str s = [CHR 0x22] @ concat (map escape_char s) @ [CHR 0x22]"

fun join :: "string \<Rightarrow> string list \<Rightarrow> string" where
  "join sep [] = []"
| "join sep [x] = x"
| "join sep (x # y # ys) = x @ sep @ join sep (y # ys)"

fun json_dumps :: "json \<Rightarrow> string" where
  "json_dumps JNull = ''null''"
| "json_dumps (JBool b) = (if b then ''true'' else ''false'')"
| "json_dumps (JNum n) = str_int n"
| "json_dumps (JStr s) = dumps_str s"
| "json_dumps (JArr xs) = ''['' @ join '', '' (map json_dumps xs) @ '']''"
| "json_dumps (JObj kvs) =
     ''{'' @ join '', '' (map (\<lambda>(k, v). dumps_str k @ '': '' @ json_dumps v) kvs) @ ''}''"


section \<open>Batch splitter\<close>

text \<open>
  \<^verbatim>\<open>SalesforceDataCloud._split_json_list(input_json_list, max_size)\<close>
  (salesforce\_datacloud\_utils.py, lines 158--179).

  The serializer \<^verbatim>\<open>json.dumps(item)\<close> followed by \<^verbatim>\<open>.encode('utf-8')\<close> is the
  parameter \<open>dumps\<close>: it gives the bytes of a record, so \<^verbatim>\<open>item_size\<close> is the length
  of that string. \<^verbatim>\<open>max_size\<close> is a Python integer, hence an \<open>int\<close>.

  The state of the \<^verbatim>\<open>for\<close> loop is the triple
  \<^verbatim>\<open>(result_lists, current_list, current_size)\<close>. A Python assignment
  \<^verbatim>\<open>current_list = []\<close> rebinds the name, so the list appended to
  \<^verbatim>\<open>result_lists\<close> just before is not changed by later appends.
\<close>

fun split_loop ::
  "('a \<Rightarrow> string) \<Rightarrow> int \<Rightarrow> 'a list \<Rightarrow> 'a list list \<times> 'a list \<times> nat
    \<Rightarrow> 'a list list \<times> 'a list \<times> nat" where
  "split_loop dumps max_size [] st = st"
| "split_loop dumps max_size (item # rest) (result_lists, current_list, current_size) =
     (let item_size = length (dumps item);
          st = (if int current_size + int item_size > max_size
                then (result_lists @ [current_list], [], 0)
                else (result_lists, current_list, current_size))
      in case st of (result_lists, current_list, current_size) \<Rightarrow>
           split_loop dumps max_size rest
             (result_lists, current_list @ [item], current_size + item_size))"

definition split_json_list :: "('a \<Rightarrow> string) \<Rightarrow> 'a list \<Rightarrow> int \<Rightarrow> 'a list list" where
  "split_json_list dumps input_json_list max_size =
     (case split_loop dumps max_size input_json_list ([], [], 0) of
        (result_lists, current_list, current_size) \<Rightarrow>
          if current_list \<noteq> [] then result_lists @ [current_list] else result_lists)"

text \<open>
  The size the loop tracks for a group in \<^verbatim>\<open>current_size\<close>: the sum of the
  serialized sizes of its records.
\<close>

definition group_size :: "('a \<Rightarrow> string) \<Rightarrow> 'a list \<Rightarrow> int" where
  "group_size dumps g = int (sum_list (map (\<lambda>item. length (dumps item)) g))"


text \<open>
  A group is within the limit when it has at most one record or its size is at most
  \<^verbatim>\<open>max_size\<close>: the invariant of the loop for the groups closed so far and for the
  current one.
\<close>

definition within_limit :: "('a \<Rightarrow> string) \<Rightarrow> int \<Rightarrow> 'a list \<Rightarrow> bool" where
  "within_limit dumps max_size g \<longleftrightarrow> length g \<le> 1 \<or> group_size dumps g \<le> max_size"


section \<open>Python values, errors and the outside world\<close>

text \<open>
  The exceptions a call can end with. \<^verbatim>\<open>SalesforceDataCloudError(operation, url,
  status, content)\<close> is the class of exceptions.py; the others are the Python errors of
  a missing dictionary key, an operation on a value of the wrong type, a method missing
  on a value, a response body that is not JSON, a request that ends without a response
  (\<^verbatim>\<open>requests.exceptions.RequestException\<close>: no connection, a timeout), and a failure
  inside a library (PyJWT, filesplit, pandas), named by a message.
\<close>

datatype error =
    SalesforceDataCloudError string string int string
  | KeyError string
  | TypeError
  | AttributeError
  | JSONDecodeError
  | RequestException
  | LibraryError string

text \<open>
  \<^verbatim>\<open>d[key]\<close> with a string key: only a dictionary has string keys (the members of a
  parsed object have distinct keys).
\<close>

fun getitem :: "json \<Rightarrow> string \<Rightarrow> error + json" where
  "getitem (JObj kvs) k = (case map_of kvs k of None \<Rightarrow> Inl (KeyError k) | Some v \<Rightarrow> Inr v)"
| "getitem _ k = Inl TypeError"

text \<open>The truth value of a parsed JSON value, as \<^verbatim>\<open>not v\<close> and \<^verbatim>\<open>if v\<close> take it.\<close>

fun truthy :: "json \<Rightarrow> bool" where
  "truthy JNull = False"
| "truthy (JBool b) = b"
| "truthy (JNum n) = (n \<noteq> 0)"
| "truthy (JStr s) = (s \<noteq> [])"
| "truthy (JArr xs) = (xs \<noteq> [])"
| "truthy (JObj kvs) = (kvs \<noteq> [])"

text \<open>
  \<^verbatim>\<open>for x in v\<close>: a list gives its elements, a dictionary its keys, a string its
  characters; nothing else can be iterated.
\<close>

fun iterate :: "json \<Rightarrow> error + json list" where
  "iterate (JArr xs) = Inr xs"
| "iterate (JObj kvs) = Inr (map (\<lambda>(k, v). JStr k) kvs)"
| "iterate (JStr s) = Inr (map (\<lambda>c. JStr [c]) s)"
| "iterate _ = Inl TypeError"

text \<open>\<^verbatim>\<open>prefix + v + suffix\<close> for string literals around a value: the value must be a string.\<close>

fun str_concat :: "string \<Rightarrow> json \<Rightarrow> string \<Rightarrow> error + string" where
  "str_concat prefix (JStr s) suffix = Inr (prefix @ s @ suffix)"
| "str_concat prefix _ suffix = Inl TypeError"

text \<open>
  A Python \<^verbatim>\<open>float\<close> is a rational number here, and the arithmetic on floats is
  exact (the rounding of the floating-point operations themselves is not modelled).
  \<^verbatim>\<open>round(x)\<close> rounds to the nearest integer and a tie to the even one;
  \<^verbatim>\<open>int(x)\<close> truncates towards zero.
\<close>

definition py_round :: "rat \<Rightarrow> int" where
  "py_round x =
     (let q = \<lfloor>x\<rfloor>; r = x - of_int q in
      if r < 1 / 2 then q
      else if r > 1 / 2 then q + 1
      else if even q then q else q + 1)"

definition py_int :: "rat \<Rightarrow> int" where
  "py_int x = (if 0 \<le> x then \<lfloor>x\<rfloor> else - \<lfloor>- x\<rfloor>)"

text \<open>
  An HTTP request as \<^verbatim>\<open>requests.request(method, url, headers=..., data=...)\<close> gets it,
  with \<open>http_method\<close> for its \<^verbatim>\<open>method\<close>, and the parts of a response the code
  reads: \<^verbatim>\<open>status_code\<close>, \<^verbatim>\<open>text\<close> (here \<open>response_text\<close>) and \<^verbatim>\<open>json()\<close>
  (here \<open>json_body\<close>, \<open>None\<close> when the body is not JSON and \<^verbatim>\<open>json()\<close> raises).
\<close>

datatype body = NoBody | Text string | Form "(string \<times> json) list"

record request =
  http_method :: string
  url :: string
  headers :: "(string \<times> string) list"
  data :: body

record response =
  status_code :: int
  response_text :: string
  json_body :: "json option"

text \<open>
  \<^verbatim>\<open>self.context\<close>. The keys set by \<^verbatim>\<open>__init__\<close> are always present;
  \<^verbatim>\<open>os.getenv\<close> gives \<^verbatim>\<open>None\<close> for a variable that is not set. The keys written by
  \<^verbatim>\<open>_authenticate\<close> are absent (\<open>None\<close>) until then, and the four tokens and URLs
  hold whatever JSON value the token endpoints returned.
\<close>

record session_context =
  loginUrl :: string
  version :: string
  clientId :: "string option"
  privateKeyFile :: string
  userName :: "string option"
  tempDir :: "string option"
  inputFileEncoding :: "string option"
  dne_cdpTokenRefreshTime :: int
  privateKey :: string
  dne_cdpAssertion :: "string option"
  dne_cdpAuthToken :: "json option"
  dne_cdpInstanceUrl :: "json option"
  dne_cdpOffcoreToken :: "json option"
  dne_cdpOffcoreUrl :: "json option"

text \<open>
  The outside world, fixed for a run:
  \<^item> \<open>http\<close>: the response to the last request of a history of requests (the servers
    may answer the same request differently over time), \<open>None\<close> when the request ends
    without a response and \<^verbatim>\<open>requests\<close> raises; such a request may still have
    reached the server (a timeout while waiting for the answer), so it counts as sent;
  \<^item> \<open>time_time\<close>: the value of \<^verbatim>\<open>time.time()\<close>, in seconds, at the k-th reading of
    the clock;
  \<^item> \<open>jwt_encode\<close>: \<^verbatim>\<open>jwt.encode(payload, key, algorithm='RS256')\<close>, \<open>None\<close> when
    the library raises;
  \<^item> \<open>py_repr\<close>: how an f-string writes a list or a dictionary;
  \<^item> \<open>pandas\<close>: the rows \<^verbatim>\<open>pd.DataFrame(data, columns=...)\<close> builds from data that
    is not a list of rows as wide as the columns, \<open>None\<close> when pandas raises;
  \<^item> \<open>bysize\<close>: \<^verbatim>\<open>Split(file_path, output_dir).bysize(...)\<close> of the filesplit
    library, for a file path, the output directory and the input encoding: the parts
    it hands to the callback, in order, each with its path, its size and the text read
    back from it, and the message of the error the library raises after them, if any.

  The state a run changes: the session context, the requests sent so far (oldest
  first) and the number of clock readings made.
\<close>

record env =
  http :: "request list \<Rightarrow> response option"
  time_time :: "nat \<Rightarrow> rat"
  jwt_encode :: "json \<Rightarrow> string \<Rightarrow> string option"
  py_repr :: "json \<Rightarrow> string"
  pandas :: "json \<Rightarrow> string list \<Rightarrow> json list option"
  bysize :: "string \<Rightarrow> string option \<Rightarrow> string option
              \<Rightarrow> (string \<times> int \<times> string) list \<times> string option"

record world =
  ctx :: session_context
  sent :: "request list"
  clock_reads :: nat

definition read_clock :: "env \<Rightarrow> world \<Rightarrow> rat \<times> world" where
  "read_clock env w = (time_time env (clock_reads w), w\<lparr>clock_reads := Suc (clock_reads w)\<rparr>)"

definition requests_request :: "env \<Rightarrow> request \<Rightarrow> world \<Rightarrow> (error + response) \<times> world" where
  "requests_request env r w =
     (case http env (sent w @ [r]) of
        None \<Rightarrow> (Inl RequestException, w\<lparr>sent := sent w @ [r]\<rparr>)
      | Some answer \<Rightarrow> (Inr answer, w\<lparr>sent := sent w @ [r]\<rparr>))"

text \<open>A value inside an f-string, \<^verbatim>\<open>f'{v}'\<close>.\<close>

definition fstr :: "env \<Rightarrow> json \<Rightarrow> string" where
  "fstr env v =
     (case v of
        JStr s \<Rightarrow> s
      | JNum n \<Rightarrow> str_int n
      | JBool b \<Rightarrow> (if b then ''True'' else ''False'')
      | JNull \<Rightarrow> ''None''
      | _ \<Rightarrow> py_repr env v)"

definition of_opt :: "string option \<Rightarrow> json" where
  "of_opt v = (case v of None \<Rightarrow> JNull | Some s \<Rightarrow> JStr s)"

definition BULK_API_MAX_PAYLOAD_SIZE :: int where
  "BULK_API_MAX_PAYLOAD_SIZE = 150 * 1000 * 1000"

definition STREAMING_API_MAX_PAYLOAD_SIZE :: int where
  "STREAMING_API_MAX_PAYLOAD_SIZE = 200 * 1000"


section \<open>Token manager\<close>

text \<open>
  \<^verbatim>\<open>SalesforceDataCloud._authenticate(force_refresh=False)\<close>, lines 71--155, in three
  parts. The second exchange step, lines 130--155: it reads the primary token and the
  instance URL from the context, posts, parses the body, checks the status and only
  then stores the platform token and URL.
\<close>

definition cdp_request :: "string \<Rightarrow> json \<Rightarrow> request" where
  "cdp_request cdp_url subject_token =
     \<lparr>http_method = ''POST'', url = cdp_url,
      headers = [(''Content-Type'', ''application/x-www-form-urlencoded'')],
      data = Form [(''grant_type'', JStr ''urn:salesforce:grant-type:external:cdp''),
                   (''subject_token'', subject_token),
                   (''subject_token_type'',
                      JStr ''urn:ietf:params:oauth:token-type:access_token'')]\<rparr>"

definition token_exchange :: "env \<Rightarrow> world \<Rightarrow> (error + unit) \<times> world" where
  "token_exchange env w =
     (case dne_cdpAuthToken (ctx w) of
        None \<Rightarrow> (Inl (KeyError ''dne_cdpAuthToken''), w)
      | Some subject_token \<Rightarrow>
     (case dne_cdpInstanceUrl (ctx w) of
        None \<Rightarrow> (Inl (KeyError ''dne_cdpInstanceUrl''), w)
      | Some instance \<Rightarrow>
     (case str_concat [] instance ''/services/a360/token'' of
        Inl e \<Rightarrow> (Inl e, w)
      | Inr cdp_url \<Rightarrow>
     (case requests_request env (cdp_request cdp_url subject_token) w of
        (Inl e, w1) \<Rightarrow> (Inl e, w1)
      | (Inr cdp_response, w1) \<Rightarrow>
     (case json_body cdp_response of
        None \<Rightarrow> (Inl JSONDecodeError, w1)
      | Some cdp_response_json \<Rightarrow>
          if status_code cdp_response \<noteq> 200
          then (Inl (SalesforceDataCloudError ''Data Cloud Token Exchange'' cdp_url
                       (status_code cdp_response) (response_text cdp_response)), w1)
          else
     (case getitem cdp_response_json ''access_token'' of
        Inl e \<Rightarrow> (Inl e, w1)
      | Inr token \<Rightarrow>
          let w2 = w1\<lparr>ctx := (ctx w1)\<lparr>dne_cdpOffcoreToken := Some token\<rparr>\<rparr> in
     (case getitem cdp_response_json ''instance_url'' of
        Inl e \<Rightarrow> (Inl e, w2)
      | Inr instance_url \<Rightarrow>
          (Inr (), w2\<lparr>ctx := (ctx w2)\<lparr>dne_cdpOffcoreUrl := Some instance_url\<rparr>\<rparr>))))))))"

text \<open>
  The first exchange step, lines 106--128, for the signed assertion \<^verbatim>\<open>jwt_token\<close>,
  followed by the second step.
\<close>

definition s2s_request :: "string \<Rightarrow> string \<Rightarrow> request" where
  "s2s_request s2s_url jwt_token =
     \<lparr>http_method = ''POST'', url = s2s_url,
      headers = [(''Content-Type'', ''application/x-www-form-urlencoded'')],
      data = Form [(''grant_type'', JStr ''urn:ietf:params:oauth:grant-type:jwt-bearer''),
                   (''assertion'', JStr jwt_token)]\<rparr>"

definition get_s2s_access_token :: "env \<Rightarrow> string \<Rightarrow> world \<Rightarrow> (error + unit) \<times> world" where
  "get_s2s_access_token env jwt_token w =
     (let s2s_url = ''https://'' @ loginUrl (ctx w) @ ''/services/oauth2/token'' in
      case requests_request env (s2s_request s2s_url jwt_token) w of
        (Inl e, w1) \<Rightarrow> (Inl e, w1)
      | (Inr s2s_response, w1) \<Rightarrow>
     (case json_body s2s_response of
        None \<Rightarrow> (Inl JSONDecodeError, w1)
      | Some s2s_response_json \<Rightarrow>
          if status_code s2s_response \<noteq> 200
          then (Inl (SalesforceDataCloudError ''Get S2S Access Token'' s2s_url
                       (status_code s2s_response) (response_text s2s_response)), w1)
          else
     (case getitem s2s_response_json ''access_token'' of
        Inl e \<Rightarrow> (Inl e, w1)
      | Inr token \<Rightarrow>
          let w2 = w1\<lparr>ctx := (ctx w1)\<lparr>dne_cdpAuthToken := Some token\<rparr>\<rparr> in
     (case getitem s2s_response_json ''instance_url'' of
        Inl e \<Rightarrow> (Inl e, w2)
      | Inr instance_url \<Rightarrow>
          token_exchange env (w2\<lparr>ctx := (ctx w2)\<lparr>dne_cdpInstanceUrl := Some instance_url\<rparr>\<rparr>)))))"

text \<open>
  The token age in minutes (line 78),
  \<^verbatim>\<open>round((time.time() * 1000 - self.context["dne_cdpTokenRefreshTime"]) / 60000)\<close>,
  and the whole operation. The clock is read once for the age and, when refreshing,
  once for the new timestamp (line 85, \<^verbatim>\<open>int(time.time() * 1000)\<close>, stored before any
  request is made) and once for the expiry of the assertion (line 97,
  \<^verbatim>\<open>int(time.time())\<close>). A clock reading is a rational number, as every float is,
  and the products and the quotient are the exact ones.
\<close>

definition cdpTokenAge :: "rat \<Rightarrow> session_context \<Rightarrow> int" where
  "cdpTokenAge now c = py_round ((now * 1000 - of_int (dne_cdpTokenRefreshTime c)) / 60000)"

definition jwt_payload :: "session_context \<Rightarrow> rat \<Rightarrow> json" where
  "jwt_payload c now =
     JObj [(''iss'', of_opt (clientId c)),
           (''sub'', of_opt (userName c)),
           (''aud'', JStr (loginUrl c)),
           (''exp'', JNum (py_int now))]"

definition authenticate :: "env \<Rightarrow> bool \<Rightarrow> world \<Rightarrow> (error + unit) \<times> world" where
  "authenticate env force_refresh w =
     (case read_clock env w of (t_age, w1) \<Rightarrow>
      if cdpTokenAge t_age (ctx w1) < 115 \<and> \<not> force_refresh then (Inr (), w1)
      else
     (case read_clock env w1 of (t_refresh, w2) \<Rightarrow>
      let w3 = w2\<lparr>ctx := (ctx w2)\<lparr>dne_cdpTokenRefreshTime := py_int (t_refresh * 1000)\<rparr>\<rparr> in
     (case read_clock env w3 of (t_exp, w4) \<Rightarrow>
     (case jwt_encode env (jwt_payload (ctx w4) t_exp) (privateKey (ctx w4)) of
        None \<Rightarrow> (Inl (LibraryError ''jwt.encode''), w4)
      | Some jwt_token \<Rightarrow>
          get_s2s_access_token env jwt_token
            (w4\<lparr>ctx := (ctx w4)\<lparr>dne_cdpAssertion := Some jwt_token\<rparr>\<rparr>)))))"


section \<open>Ingestion operations\<close>

text \<open>
  The two expressions every operation builds from the context: the headers with
  \<^verbatim>\<open>'Bearer ' + self.context['dne_cdpOffcoreToken']\<close>, and
  \<^verbatim>\<open>'https://' + self.context['dne_cdpOffcoreUrl'] + path\<close>; and a request whose
  \<^verbatim>\<open>data\<close> is a text payload.
\<close>

definition bearer_headers :: "string \<Rightarrow> session_context \<Rightarrow> error + (string \<times> string) list" where
  "bearer_headers content_type c =
     (case dne_cdpOffcoreToken c of
        None \<Rightarrow> Inl (KeyError ''dne_cdpOffcoreToken'')
      | Some token \<Rightarrow>
          (case str_concat ''Bearer '' token [] of
             Inl e \<Rightarrow> Inl e
           | Inr authorization \<Rightarrow>
               Inr [(''Content-Type'', content_type), (''Authorization'', authorization)]))"

definition offcore_url :: "session_context \<Rightarrow> string \<Rightarrow> error + string" where
  "offcore_url c path =
     (case dne_cdpOffcoreUrl c of
        None \<Rightarrow> Inl (KeyError ''dne_cdpOffcoreUrl'')
      | Some instance \<Rightarrow> str_concat ''https://'' instance path)"

text \<open>
  \<^verbatim>\<open>streaming_upsert(source_api_name, source_object_name, data, test_mode=False)\<close>,
  lines 181--214. The loop over the chunks carries \<^verbatim>\<open>response\<close>, \<^verbatim>\<open>None\<close> before
  the first request; the URL is built inside the loop.
\<close>

definition text_request :: "string \<Rightarrow> string \<Rightarrow> (string \<times> string) list \<Rightarrow> string \<Rightarrow> request" where
  "text_request verb target hdrs payload =
     \<lparr>http_method = verb, url = target, headers = hdrs, data = Text payload\<rparr>"

fun streaming_loop ::
  "env \<Rightarrow> (string \<times> string) list \<Rightarrow> string \<Rightarrow> string \<Rightarrow> bool \<Rightarrow> json list list
    \<Rightarrow> response option \<Rightarrow> world \<Rightarrow> (error + response option) \<times> world" where
  "streaming_loop env hdrs source_api_name source_object_name test_mode [] response w =
     (Inr response, w)"
| "streaming_loop env hdrs source_api_name source_object_name test_mode (chunk # chunks) response w =
     (let payload = json_dumps (JObj [(''data'', JArr chunk)]) in
      case offcore_url (ctx w)
             (''/api/v1/ingest/sources/'' @ source_api_name @ ''/'' @ source_object_name) of
        Inl e \<Rightarrow> (Inl e, w)
      | Inr url0 \<Rightarrow>
          let url1 = (if test_mode then url0 @ ''/actions/test'' else url0) in
          (case requests_request env (text_request ''POST'' url1 hdrs payload) w of
             (Inl e, w1) \<Rightarrow> (Inl e, w1)
           | (Inr response1, w1) \<Rightarrow>
               if status_code response1 \<noteq> 202
               then (Inl (SalesforceDataCloudError ''Streaming UPSERT'' url1
                            (status_code response1) (response_text response1)), w1)
               else streaming_loop env hdrs source_api_name source_object_name test_mode
                      chunks (Some response1) w1))"

definition streaming_upsert ::
  "env \<Rightarrow> string \<Rightarrow> string \<Rightarrow> json \<Rightarrow> bool \<Rightarrow> world \<Rightarrow> (error + response option) \<times> world" where
  "streaming_upsert env source_api_name source_object_name data_arg test_mode w =
     (case authenticate env False w of
        (Inl e, w1) \<Rightarrow> (Inl e, w1)
      | (Inr u, w1) \<Rightarrow>
     (case bearer_headers ''application/json'' (ctx w1) of
        Inl e \<Rightarrow> (Inl e, w1)
      | Inr hdrs \<Rightarrow>
     (case getitem data_arg ''data'' of
        Inl e \<Rightarrow> (Inl e, w1)
      | Inr records \<Rightarrow>
     (case iterate records of
        Inl e \<Rightarrow> (Inl e, w1)
      | Inr input_json_list \<Rightarrow>
          streaming_loop env hdrs source_api_name source_object_name test_mode
            (split_json_list json_dumps input_json_list STREAMING_API_MAX_PAYLOAD_SIZE)
            None w1))))"

text \<open>\<^verbatim>\<open>_create_job(source_api_name, source_object_name, operation)\<close>, lines 216--245.\<close>

definition create_job ::
  "env \<Rightarrow> string \<Rightarrow> string \<Rightarrow> string \<Rightarrow> world \<Rightarrow> (error + json) \<times> world" where
  "create_job env source_api_name source_object_name operation w =
     (case bearer_headers ''application/json'' (ctx w) of
        Inl e \<Rightarrow> (Inl e, w)
      | Inr hdrs \<Rightarrow>
     (case offcore_url (ctx w) ''/api/v1/ingest/jobs'' of
        Inl e \<Rightarrow> (Inl e, w)
      | Inr job_url \<Rightarrow>
          let payload = json_dumps (JObj [(''object'', JStr source_object_name),
                                          (''sourceName'', JStr source_api_name),
                                          (''operation'', JStr operation)]) in
     (case requests_request env (text_request ''POST'' job_url hdrs payload) w of
        (Inl e, w1) \<Rightarrow> (Inl e, w1)
      | (Inr response1, w1) \<Rightarrow>
          if status_code response1 \<noteq> 201
          then (Inl (SalesforceDataCloudError ''Create Job'' job_url
                       (status_code response1) (response_text response1)), w1)
          else
     (case json_body response1 of
        None \<Rightarrow> (Inl JSONDecodeError, w1)
      | Some response_dict \<Rightarrow>
          (case getitem response_dict ''id'' of
             Inl e \<Rightarrow> (Inl e, w1)
           | Inr job_id \<Rightarrow> (Inr job_id, w1))))))"

text \<open>
  \<^verbatim>\<open>_close_job(job_id, state="UploadComplete")\<close>, lines 247--267: the response is
  returned whatever its status; only a request without a response raises. \<^verbatim>\<open>abort_job(job_id)\<close>, lines 391--399.
\<close>

definition close_job :: "env \<Rightarrow> json \<Rightarrow> string \<Rightarrow> world \<Rightarrow> (error + response) \<times> world" where
  "close_job env job_id state w =
     (case authenticate env False w of
        (Inl e, w1) \<Rightarrow> (Inl e, w1)
      | (Inr u, w1) \<Rightarrow>
     (case bearer_headers ''application/json'' (ctx w1) of
        Inl e \<Rightarrow> (Inl e, w1)
      | Inr hdrs \<Rightarrow>
          let payload = json_dumps (JObj [(''state'', JStr state)]) in
     (case offcore_url (ctx w1) (''/api/v1/ingest/jobs/'' @ fstr env job_id) of
        Inl e \<Rightarrow> (Inl e, w1)
      | Inr job_url \<Rightarrow>
          (case requests_request env (text_request ''PATCH'' job_url hdrs payload) w1 of
             (Inl e, w2) \<Rightarrow> (Inl e, w2)
           | (Inr response1, w2) \<Rightarrow> (Inr response1, w2)))))"

definition abort_job :: "env \<Rightarrow> json \<Rightarrow> world \<Rightarrow> (error + response) \<times> world" where
  "abort_job env job_id w = close_job env job_id ''Aborted'' w"

text \<open>
  \<^verbatim>\<open>_bulk_operation(source_api_name, source_object_name, data_file_paths, operation)\<close>,
  lines 269--320. \<^verbatim>\<open>split_callback\<close> uploads one part; its \<^verbatim>\<open>response\<close> is a
  variable of its own. The changes the callback and the library make to the files on
  disk are not part of the state.
\<close>

fun split_callbacks ::
  "env \<Rightarrow> string \<Rightarrow> (string \<times> string) list \<Rightarrow> (string \<times> int \<times> string) list \<Rightarrow> world
    \<Rightarrow> (error + unit) \<times> world" where
  "split_callbacks env batches_url hdrs [] w = (Inr (), w)"
| "split_callbacks env batches_url hdrs ((split_file_path, split_file_size, payload) # parts) w =
     (case requests_request env (text_request ''PUT'' batches_url hdrs payload) w of
        (Inl e, w1) \<Rightarrow> (Inl e, w1)
      | (Inr response1, w1) \<Rightarrow>
          if status_code response1 \<noteq> 202
          then (Inl (SalesforceDataCloudError ''Upload File'' batches_url
                       (status_code response1) (response_text response1)), w1)
          else split_callbacks env batches_url hdrs parts w1)"

fun upload_files ::
  "env \<Rightarrow> string \<Rightarrow> (string \<times> string) list \<Rightarrow> string list \<Rightarrow> world \<Rightarrow> (error + unit) \<times> world" where
  "upload_files env batches_url hdrs [] w = (Inr (), w)"
| "upload_files env batches_url hdrs (file_path # file_paths) w =
     (let encoding = (case inputFileEncoding (ctx w) of
                        None \<Rightarrow> None
                      | Some e \<Rightarrow> if e \<noteq> [] then Some e else None) in
      case bysize env file_path (tempDir (ctx w)) encoding of
        (parts, failure) \<Rightarrow>
          (case split_callbacks env batches_url hdrs parts w of
             (Inl e, w1) \<Rightarrow> (Inl e, w1)
           | (Inr u, w1) \<Rightarrow>
               (case failure of
                  Some message \<Rightarrow> (Inl (LibraryError message), w1)
                | None \<Rightarrow> upload_files env batches_url hdrs file_paths w1)))"

text \<open>The body of the \<^verbatim>\<open>try\<close> block, lines 299--315.\<close>

definition upload_and_close ::
  "env \<Rightarrow> json \<Rightarrow> string list \<Rightarrow> world \<Rightarrow> (error + response) \<times> world" where
  "upload_and_close env job_id data_file_paths w =
     (case bearer_headers ''text/csv'' (ctx w) of
        Inl e \<Rightarrow> (Inl e, w)
      | Inr hdrs \<Rightarrow>
     (case offcore_url (ctx w) (''/api/v1/ingest/jobs/'' @ fstr env job_id @ ''/batches'') of
        Inl e \<Rightarrow> (Inl e, w)
      | Inr batches_url \<Rightarrow>
     (case upload_files env batches_url hdrs data_file_paths w of
        (Inl e, w1) \<Rightarrow> (Inl e, w1)
      | (Inr u, w1) \<Rightarrow> close_job env job_id ''UploadComplete'' w1)))"


text \<open>
  \<^verbatim>\<open>job_id\<close> is cleared when \<^verbatim>\<open>_close_job\<close> has returned, so the \<^verbatim>\<open>finally\<close>
  block finds a job id exactly when the \<^verbatim>\<open>try\<close> block ended with an exception. It
  aborts the job unless the id is \<^verbatim>\<open>None\<close> (line 317), which is the id of a job
  created with \<^verbatim>\<open>"id": null\<close>; an exception of the abort itself replaces the one
  being propagated.
\<close>

definition bulk_operation ::
  "env \<Rightarrow> string \<Rightarrow> string \<Rightarrow> string list \<Rightarrow> string \<Rightarrow> world \<Rightarrow> (error + response) \<times> world" where
  "bulk_operation env source_api_name source_object_name data_file_paths operation w =
     (case authenticate env False w of
        (Inl e, w1) \<Rightarrow> (Inl e, w1)
      | (Inr u, w1) \<Rightarrow>
     (case create_job env source_api_name source_object_name operation w1 of
        (Inl e, w2) \<Rightarrow> (Inl e, w2)
      | (Inr job_id, w2) \<Rightarrow>
     (case upload_and_close env job_id data_file_paths w2 of
        (Inr response1, w3) \<Rightarrow> (Inr response1, w3)
      | (Inl e, w3) \<Rightarrow>
          if job_id \<noteq> JNull
          then (case abort_job env job_id w3 of
                  (Inl e', w4) \<Rightarrow> (Inl e', w4)
                | (Inr r, w4) \<Rightarrow> (Inl e, w4))
          else (Inl e, w3))))"


definition bulk_delete ::
  "env \<Rightarrow> string \<Rightarrow> string \<Rightarrow> string list \<Rightarrow> world \<Rightarrow> (error + unit) \<times> world" where
  "bulk_delete env source_api_name source_object_name data_file_paths w =
     (case bulk_operation env source_api_name source_object_name data_file_paths ''delete'' w of
        (Inl e, w1) \<Rightarrow> (Inl e, w1)
      | (Inr r, w1) \<Rightarrow> (Inr (), w1))"


section \<open>Job administration and queries\<close>

text \<open>
  \<^verbatim>\<open>list_jobs(limit=50, offset=0, orderby="", state="")\<close>, lines 348--369, and
  \<^verbatim>\<open>job_info(job_id)\<close>, lines 371--389: the parsed body is logged and the response
  returned whatever its status.
\<close>

definition list_jobs ::
  "env \<Rightarrow> int \<Rightarrow> int \<Rightarrow> string \<Rightarrow> string \<Rightarrow> world \<Rightarrow> (error + response) \<times> world" where
  "list_jobs env limit offset orderby state w =
     (case authenticate env False w of
        (Inl e, w1) \<Rightarrow> (Inl e, w1)
      | (Inr u, w1) \<Rightarrow>
     (case bearer_headers ''application/json'' (ctx w1) of
        Inl e \<Rightarrow> (Inl e, w1)
      | Inr hdrs \<Rightarrow>
     (case offcore_url (ctx w1)
             (''/api/v1/ingest/jobs?limit='' @ str_int limit @ ''&offset='' @ str_int offset
                @ ''&orderby='' @ orderby @ ''&states='' @ state) of
        Inl e \<Rightarrow> (Inl e, w1)
      | Inr jobs_url \<Rightarrow>
          (case requests_request env
                  \<lparr>http_method = ''GET'', url = jobs_url, headers = hdrs, data = Form []\<rparr> w1 of
             (Inl e, w2) \<Rightarrow> (Inl e, w2)
           | (Inr response1, w2) \<Rightarrow>
               (case json_body response1 of
                  None \<Rightarrow> (Inl JSONDecodeError, w2)
                | Some logged \<Rightarrow> (Inr response1, w2))))))"


text \<open>\<^verbatim>\<open>abort_all_jobs()\<close>, lines 401--410.\<close>

fun abort_each :: "env \<Rightarrow> json list \<Rightarrow> world \<Rightarrow> (error + unit) \<times> world" where
  "abort_each env [] w = (Inr (), w)"
| "abort_each env (job # jobs) w =
     (case getitem job ''id'' of
        Inl e \<Rightarrow> (Inl e, w)
      | Inr job_id \<Rightarrow>
          (case abort_job env job_id w of
             (Inl e, w1) \<Rightarrow> (Inl e, w1)
           | (Inr r, w1) \<Rightarrow> abort_each env jobs w1))"

definition abort_all_jobs :: "env \<Rightarrow> world \<Rightarrow> (error + unit) \<times> world" where
  "abort_all_jobs env w =
     (case authenticate env False w of
        (Inl e, w1) \<Rightarrow> (Inl e, w1)
      | (Inr u, w1) \<Rightarrow>
     (case list_jobs env 50 0 [] ''Open,UploadComplete'' w1 of
        (Inl e, w2) \<Rightarrow> (Inl e, w2)
      | (Inr response1, w2) \<Rightarrow>
     (case json_body response1 of
        None \<Rightarrow> (Inl JSONDecodeError, w2)
      | Some listing \<Rightarrow>
     (case getitem listing ''data'' of
        Inl e \<Rightarrow> (Inl e, w2)
      | Inr jobs_value \<Rightarrow>
          (case iterate jobs_value of
             Inl e \<Rightarrow> (Inl e, w2)
           | Inr jobs \<Rightarrow> abort_each env jobs w2)))))"

text \<open>
  \<^verbatim>\<open>query(query_str)\<close>, lines 412--456. A data frame is its column names and its
  rows. \<^verbatim>\<open>pd.DataFrame(data, columns=...)\<close> has the rows of \<^verbatim>\<open>data\<close> when that is a
  list of rows, each a list as wide as the columns; it is empty for \<^verbatim>\<open>None\<close> and for
  an empty dictionary; for any other data the rows, or the error, are what pandas
  makes of it. \<^verbatim>\<open>df.append(df2, ignore_index=True)\<close> returns a new frame with the
  rows of both and leaves \<^verbatim>\<open>df\<close> as it is (pandas before 2.0, which has the method).
\<close>

record dataframe =
  columns :: "string list"
  rows :: "json list"

definition well_shaped :: "string list \<Rightarrow> json \<Rightarrow> bool" where
  "well_shaped cols row =
     (case row of JArr cells \<Rightarrow> length cells = length cols | _ \<Rightarrow> False)"

definition DataFrame :: "env \<Rightarrow> json \<Rightarrow> string list \<Rightarrow> error + dataframe" where
  "DataFrame env data_arg cols =
     (if data_arg = JNull \<or> data_arg = JObj [] then Inr \<lparr>columns = cols, rows = []\<rparr>
      else case data_arg of
        JArr rs \<Rightarrow>
          if list_all (well_shaped cols) rs then Inr \<lparr>columns = cols, rows = rs\<rparr>
          else (case pandas env data_arg cols of
                  None \<Rightarrow> Inl (LibraryError ''pandas'')
                | Some built \<Rightarrow> Inr \<lparr>columns = cols, rows = built\<rparr>)
      | _ \<Rightarrow>
          (case pandas env data_arg cols of
             None \<Rightarrow> Inl (LibraryError ''pandas'')
           | Some built \<Rightarrow> Inr \<lparr>columns = cols, rows = built\<rparr>))"

definition df_append :: "dataframe \<Rightarrow> dataframe \<Rightarrow> dataframe" where
  "df_append df df2 = \<lparr>columns = columns df, rows = rows df @ rows df2\<rparr>"

definition keys :: "json \<Rightarrow> error + string list" where
  "keys v = (case v of JObj kvs \<Rightarrow> Inr (map fst kvs) | _ \<Rightarrow> Inl AttributeError)"

text \<open>
  The \<^verbatim>\<open>while not response_dict["done"]\<close> loop. It runs for as long as the server
  answers with pages that are not done, so its result is optional: \<open>None\<close> stands for
  a loop that never ends. The value of \<^verbatim>\<open>df.append(df2, ignore_index=True)\<close> is
  computed and dropped, as in line 453, and the loop goes on with \<^verbatim>\<open>df\<close>.
\<close>

partial_function (option) query_loop ::
  "env \<Rightarrow> (string \<times> string) list \<Rightarrow> string list \<Rightarrow> dataframe \<Rightarrow> json \<Rightarrow> world
    \<Rightarrow> ((error + dataframe) \<times> world) option" where
  "query_loop env hdrs cols df response_dict w =
     (case getitem response_dict ''done'' of
        Inl e \<Rightarrow> Some (Inl e, w)
      | Inr done \<Rightarrow>
          if truthy done then Some (Inr df, w)
          else
     (case getitem response_dict ''nextBatchId'' of
        Inl e \<Rightarrow> Some (Inl e, w)
      | Inr nextBatchId \<Rightarrow>
     (case offcore_url (ctx w) (''/api/v2/query/'' @ fstr env nextBatchId) of
        Inl e \<Rightarrow> Some (Inl e, w)
      | Inr batch_url \<Rightarrow>
     (case requests_request env
             \<lparr>http_method = ''GET'', url = batch_url, headers = hdrs, data = NoBody\<rparr> w of
        (Inl e, w1) \<Rightarrow> Some (Inl e, w1)
      | (Inr response1, w1) \<Rightarrow>
          if status_code response1 \<noteq> 200
          then Some (Inl (SalesforceDataCloudError ''Query'' batch_url
                            (status_code response1) (response_text response1)), w1)
          else
     (case json_body response1 of
        None \<Rightarrow> Some (Inl JSONDecodeError, w1)
      | Some response_dict1 \<Rightarrow>
     (case getitem response_dict1 ''data'' of
        Inl e \<Rightarrow> Some (Inl e, w1)
      | Inr page \<Rightarrow>
     (case DataFrame env page cols of
        Inl e \<Rightarrow> Some (Inl e, w1)
      | Inr df2 \<Rightarrow>
          (case df_append df df2 of
             appended \<Rightarrow> query_loop env hdrs cols df response_dict1 w1))))))))"

declare query_loop.simps [code]

definition query :: "env \<Rightarrow> string \<Rightarrow> world \<Rightarrow> ((error + dataframe) \<times> world) option" where
  "query env query_str w =
     (case authenticate env False w of
        (Inl e, w1) \<Rightarrow> Some (Inl e, w1)
      | (Inr u, w1) \<Rightarrow>
     (case bearer_headers ''application/json'' (ctx w1) of
        Inl e \<Rightarrow> Some (Inl e, w1)
      | Inr hdrs \<Rightarrow>
     (case offcore_url (ctx w1) ''/api/v2/query'' of
        Inl e \<Rightarrow> Some (Inl e, w1)
      | Inr query_url \<Rightarrow>
          let payload = json_dumps (JObj [(''sql'', JStr query_str)]) in
     (case requests_request env (text_request ''POST'' query_url hdrs payload) w1 of
        (Inl e, w2) \<Rightarrow> Some (Inl e, w2)
      | (Inr response1, w2) \<Rightarrow>
          if status_code response1 \<noteq> 200
          then Some (Inl (SalesforceDataCloudError ''Query'' query_url
                            (status_code response1) (response_text response1)), w2)
          else
     (case json_body response1 of
        None \<Rightarrow> Some (Inl JSONDecodeError, w2)
      | Some response_dict \<Rightarrow>
     (case getitem response_dict ''metadata'' of
        Inl e \<Rightarrow> Some (Inl e, w2)
      | Inr output_metadata \<Rightarrow>
     (case getitem response_dict ''data'' of
        Inl e \<Rightarrow> Some (Inl e, w2)
      | Inr page \<Rightarrow>
     (case keys output_metadata of
        Inl e \<Rightarrow> Some (Inl e, w2)
      | Inr cols \<Rightarrow>
     (case DataFrame env page cols of
        Inl e \<Rightarrow> Some (Inl e, w2)
      | Inr df \<Rightarrow> query_loop env hdrs cols df response_dict w2)))))))))"


section \<open>A session and mock endpoints for concrete runs\<close>

text \<open>
  The context \<^verbatim>\<open>__init__\<close> builds (lines 56--69) from the environment variables and
  the text of the private key file.
\<close>

definition init ::
  "string option \<Rightarrow> string \<Rightarrow> string option \<Rightarrow> string option \<Rightarrow> string option \<Rightarrow> string
    \<Rightarrow> session_context" where
  "init client_id key_file user_name temp_dir encoding key_text =
     \<lparr>loginUrl = ''login.salesforce.com'', version = ''52.0'', clientId = client_id,
      privateKeyFile = key_file, userName = user_name, tempDir = temp_dir,
      inputFileEncoding = encoding, dne_cdpTokenRefreshTime = 0, privateKey = key_text,
      dne_cdpAssertion = None, dne_cdpAuthToken = None, dne_cdpInstanceUrl = None,
      dne_cdpOffcoreToken = None, dne_cdpOffcoreUrl = None\<rparr>"

text \<open>
  Mock endpoints: a table from method and URL to the response, and 404 for every other
  request; a clock that starts at a fixed instant and advances by a millisecond per
  reading; a signer that returns a fixed assertion; a file splitter given by a table
  from file path to the parts and the failure it produces. The job and batch ids of
  the runs below are strings and their pages are lists of rows as wide as the columns,
  so \<open>py_repr\<close> and \<open>pandas\<close> are never reached; JSON notation and an error stand in
  for them. \<open>unanswered\<close> makes the requests of a given kind end without a
  response.
\<close>

definition json_response :: "int \<Rightarrow> json \<Rightarrow> response" where
  "json_response code v = \<lparr>status_code = code, response_text = json_dumps v, json_body = Some v\<rparr>"

definition not_found :: response where
  "not_found = \<lparr>status_code = 404, response_text = ''Not Found'', json_body = None\<rparr>"

definition mock_http ::
  "((string \<times> string) \<times> response) list \<Rightarrow> request list \<Rightarrow> response option" where
  "mock_http routes history =
     (case rev history of
        [] \<Rightarrow> Some not_found
      | r # earlier \<Rightarrow>
          (case map_of routes (http_method r, url r) of
             None \<Rightarrow> Some not_found
           | Some answer \<Rightarrow> Some answer))"

definition mock_env ::
  "((string \<times> string) \<times> response) list
    \<Rightarrow> (string \<times> (string \<times> int \<times> string) list \<times> string option) list \<Rightarrow> env" where
  "mock_env routes files =
     \<lparr>http = mock_http routes,
      time_time = (\<lambda>k. 1700000000 + of_nat k / 1000),
      jwt_encode = (\<lambda>payload key. Some ''assertion''),
      py_repr = json_dumps,
      pandas = (\<lambda>data_arg cols. None),
      bysize = (\<lambda>file_path output_dir encoding.
                  case map_of files file_path of
                    None \<Rightarrow> ([], Some ''No such file'')
                  | Some parts \<Rightarrow> parts)\<rparr>"


definition new_session :: world where
  "new_session =
     \<lparr>ctx = init (Some ''client'') ''server.key'' (Some ''user@example.com'') (Some ''tempfiles'')
              (Some ''utf-8'') ''key'',
      sent = [], clock_reads = 0\<rparr>"

text \<open>
  A session whose platform token was obtained at the instant the mock clock starts, so
  that the token is fresh; and one whose token was obtained a given number of
  milliseconds before that instant.
\<close>

definition fresh_session :: world where
  "fresh_session =
     \<lparr>ctx = (init (Some ''client'') ''server.key'' (Some ''user@example.com'') (Some ''tempfiles'')
               (Some ''utf-8'') ''key'')
             \<lparr>dne_cdpTokenRefreshTime := 1700000000000,
              dne_cdpOffcoreToken := Some (JStr ''token''),
              dne_cdpOffcoreUrl := Some (JStr ''dc.example.com'')\<rparr>,
      sent = [], clock_reads = 0\<rparr>"



text \<open>
  A query endpoint that answers in two pages: the first page is not done and names the
  batch \<^verbatim>\<open>b2\<close>, the second page is done.
\<close>

definition two_page_routes :: "((string \<times> string) \<times> response) list" where
  "two_page_routes =
     [((''POST'', ''https://dc.example.com/api/v2/query''),
        json_response 200 (JObj [(''metadata'', JObj [(''id'', JObj [])]),
                                 (''data'', JArr [JArr [JNum 1]]),
                                 (''done'', JBool False),
                                 (''nextBatchId'', JStr ''b2'')])),
      ((''GET'', ''https://dc.example.com/api/v2/query/b2''),
        json_response 200 (JObj [(''data'', JArr [JArr [JNum 2]]),
                                 (''done'', JBool True)]))]"





definition rejecting_routes :: "((string \<times> string) \<times> response) list" where
  "rejecting_routes =
     [((''POST'', ''https://login.salesforce.com/services/oauth2/token''),
        json_response 401 (JObj [(''error'', JStr ''invalid_grant'')]))]"

definition exchange_rejecting_routes :: "((string \<times> string) \<times> response) list" where
  "exchange_rejecting_routes =
     [((''POST'', ''https://login.salesforce.com/services/oauth2/token''),
        json_response 200 (JObj [(''access_token'', JStr ''core''),
                                 (''instance_url'', JStr ''https://core.example.com'')])),
      ((''POST'', ''https://core.example.com/services/a360/token''),
        json_response 403 (JObj [(''error'', JStr ''forbidden'')]))]"


definition refreshing :: "env \<Rightarrow> bool \<Rightarrow> world \<Rightarrow> bool" where
  "refreshing env force_refresh w \<longleftrightarrow>
     \<not> (cdpTokenAge (time_time env (clock_reads w)) (ctx w) < 115 \<and> \<not> force_refresh)"

text \<open>
  For the statements about the status checks: the structured error a call site raises
  for an answer, and a job endpoint that answers 500 to the request that closes or
  reads job \<^verbatim>\<open>job1\<close> and to the request that lists the jobs.
\<close>

definition raise_for :: "string \<Rightarrow> string \<Rightarrow> response \<Rightarrow> error" where
  "raise_for operation target r =
     SalesforceDataCloudError operation target (status_code r) (response_text r)"


text \<open>
  For the statements about the bulk operation: the PATCH requests among a list of
  requests; a request is a transition to a state when it is a PATCH whose payload is
  \<^verbatim>\<open>{"state": state}\<close>, as \<^verbatim>\<open>_close_job\<close> builds it. Mock endpoints for a job
  \<^verbatim>\<open>job1\<close>: one where the upload of a part is answered 404 and the job can be
  closed, one where the uploads are accepted and closing the job is answered 500; an
  endpoint that creates a job whose id is \<^verbatim>\<open>null\<close>; and a file that is split into a
  single part.
\<close>

definition patches :: "request list \<Rightarrow> request list" where
  "patches xs = filter (\<lambda>r. http_method r = ''PATCH'') xs"







section \<open>Properties of the batch splitter\<close>

lemma split_loop_concat:
  "split_loop dumps max_size xs (rs, cur, sz) = (rs', cur', sz')
    \<Longrightarrow> concat rs' @ cur' = concat rs @ cur @ xs"
proof (induction xs arbitrary: rs cur sz)
  case Nil
  then show ?case by simp
next
  case (Cons x xs)
  show ?case
  proof (cases "int sz + int (length (dumps x)) > max_size")
    case True
    with Cons.prems have
      "split_loop dumps max_size xs (rs @ [cur], [x], length (dumps x)) = (rs', cur', sz')"
      by (simp add: Let_def)
    from Cons.IH [OF this] show ?thesis by simp
  next
    case False
    with Cons.prems have
      "split_loop dumps max_size xs (rs, cur @ [x], sz + length (dumps x)) = (rs', cur', sz')"
      by (simp add: Let_def)
    from Cons.IH [OF this] show ?thesis by simp
  qed
qed

text \<open>
  Claim C2. For every input sequence of records and every \<^verbatim>\<open>max_size\<close>, the
  concatenation of the groups returned by \<^verbatim>\<open>_split_json_list\<close> is the input
  sequence, in the same order: nothing is reordered, dropped or duplicated.
\<close>

theorem split_json_list_concat:
  "concat (split_json_list dumps input_json_list max_size) = input_json_list"
proof -
  obtain rs cur sz where
    run: "split_loop dumps max_size input_json_list ([], [], 0) = (rs, cur, sz)"
    by (cases "split_loop dumps max_size input_json_list ([], [], 0)") auto
  from split_loop_concat [OF run] have "concat rs @ cur = input_json_list"
    by simp
  with run show ?thesis
    by (auto simp: split_json_list_def)
qed

lemma split_loop_prefix:
  "split_loop dumps max_size xs (rs, cur, sz) = (rs', cur', sz') \<Longrightarrow> \<exists>ys. rs' = rs @ ys"
proof (induction xs arbitrary: rs cur sz)
  case Nil
  then show ?case by simp
next
  case (Cons x xs)
  show ?case
  proof (cases "int sz + int (length (dumps x)) > max_size")
    case True
    with Cons.prems have
      "split_loop dumps max_size xs (rs @ [cur], [x], length (dumps x)) = (rs', cur', sz')"
      by (simp add: Let_def)
    from Cons.IH [OF this] show ?thesis by auto
  next
    case False
    with Cons.prems have
      "split_loop dumps max_size xs (rs, cur @ [x], sz + length (dumps x)) = (rs', cur', sz')"
      by (simp add: Let_def)
    from Cons.IH [OF this] show ?thesis .
  qed
qed

lemma split_json_list_oversized_first:
  assumes "max_size < int (length (dumps x))"
  shows "\<exists>gs. split_json_list dumps (x # xs) max_size = [] # gs"
proof -
  obtain rs cur sz where
    run: "split_loop dumps max_size xs ([[]], [x], length (dumps x)) = (rs, cur, sz)"
    by (cases "split_loop dumps max_size xs ([[]], [x], length (dumps x))") auto
  from split_loop_prefix [OF run] obtain ys where "rs = [[]] @ ys" by blast
  with run assms show ?thesis
    by (simp add: split_json_list_def Let_def)
qed

lemma split_loop_within_limit:
  "split_loop dumps max_size xs (rs, cur, sz) = (rs', cur', sz')
    \<Longrightarrow> int sz = group_size dumps cur
    \<Longrightarrow> within_limit dumps max_size cur
    \<Longrightarrow> \<forall>g \<in> set rs. within_limit dumps max_size g
    \<Longrightarrow> within_limit dumps max_size cur' \<and> (\<forall>g \<in> set rs'. within_limit dumps max_size g)"
proof (induction xs arbitrary: rs cur sz)
  case Nil
  then show ?case by simp
next
  case (Cons x xs)
  show ?case
  proof (cases "int sz + int (length (dumps x)) > max_size")
    case True
    with Cons.prems(1) have run:
      "split_loop dumps max_size xs (rs @ [cur], [x], length (dumps x)) = (rs', cur', sz')"
      by (simp add: Let_def)
    show ?thesis
    proof (rule Cons.IH [OF run])
      show "int (length (dumps x)) = group_size dumps [x]"
        by (simp add: group_size_def)
      show "within_limit dumps max_size [x]"
        by (simp add: within_limit_def)
      show "\<forall>g \<in> set (rs @ [cur]). within_limit dumps max_size g"
        using Cons.prems(3,4) by simp
    qed
  next
    case False
    with Cons.prems(1) have run:
      "split_loop dumps max_size xs (rs, cur @ [x], sz + length (dumps x)) = (rs', cur', sz')"
      by (simp add: Let_def)
    show ?thesis
    proof (rule Cons.IH [OF run])
      show size: "int (sz + length (dumps x)) = group_size dumps (cur @ [x])"
        using Cons.prems(2) by (simp add: group_size_def)
      show "within_limit dumps max_size (cur @ [x])"
        using False size by (simp add: within_limit_def)
      show "\<forall>g \<in> set rs. within_limit dumps max_size g"
        using Cons.prems(4) .
    qed
  qed
qed

lemma split_json_list_within_limit:
  assumes "g \<in> set (split_json_list dumps input_json_list max_size)"
  shows "within_limit dumps max_size g"
proof -
  obtain rs cur sz where
    run: "split_loop dumps max_size input_json_list ([], [], 0) = (rs, cur, sz)"
    by (cases "split_loop dumps max_size input_json_list ([], [], 0)") auto
  have "within_limit dumps max_size cur \<and> (\<forall>g \<in> set rs. within_limit dumps max_size g)"
    by (rule split_loop_within_limit [OF run]) (simp_all add: group_size_def within_limit_def)
  with run assms show ?thesis
    by (auto simp: split_json_list_def split: if_splits)
qed

text \<open>
  Claim C4. For every input sequence and \<^verbatim>\<open>max_size\<close>, every group with two or
  more records has a total serialized size of at most \<^verbatim>\<open>max_size\<close>; and every
  group, when \<^verbatim>\<open>max_size\<close> is not negative or the group is not empty, has a
  total serialized size of at most \<^verbatim>\<open>max_size\<close> or is the singleton of a record
  whose own serialized size exceeds \<^verbatim>\<open>max_size\<close>.
\<close>

theorem split_json_list_group_bound:
  "\<forall>g \<in> set (split_json_list dumps input_json_list max_size).
     (2 \<le> length g \<longrightarrow> group_size dumps g \<le> max_size) \<and>
     (0 \<le> max_size \<or> g \<noteq> [] \<longrightarrow>
        group_size dumps g \<le> max_size \<or>
        (\<exists>item. g = [item] \<and> max_size < int (length (dumps item))))"
proof
  fix g
  assume "g \<in> set (split_json_list dumps input_json_list max_size)"
  then have w: "length g \<le> 1 \<or> group_size dumps g \<le> max_size"
    using split_json_list_within_limit [of g dumps input_json_list max_size]
    by (simp add: within_limit_def)
  have a: "2 \<le> length g \<longrightarrow> group_size dumps g \<le> max_size"
    using w by auto
  have b: "0 \<le> max_size \<or> g \<noteq> [] \<longrightarrow>
        group_size dumps g \<le> max_size \<or>
        (\<exists>item. g = [item] \<and> max_size < int (length (dumps item)))"
  proof (cases g)
    case Nil
    then show ?thesis by (simp add: group_size_def)
  next
    case (Cons x xs)
    show ?thesis
    proof (cases xs)
      case Nil
      with Cons show ?thesis by (auto simp: group_size_def)
    next
      case (Cons y ys)
      with \<open>g = x # xs\<close> a show ?thesis by simp
    qed
  qed
  from a b show "(2 \<le> length g \<longrightarrow> group_size dumps g \<le> max_size) \<and>
     (0 \<le> max_size \<or> g \<noteq> [] \<longrightarrow>
        group_size dumps g \<le> max_size \<or>
        (\<exists>item. g = [item] \<and> max_size < int (length (dumps item))))" by simp
qed

theorem split_json_list_group_bound_witness:
  "[JObj [(''a'', JNum 1)], JObj [(''a'', JNum 1)]]
      \<in> set (split_json_list json_dumps (replicate 5 (JObj [(''a'', JNum 1)])) 16)
   \<and> group_size json_dumps [JObj [(''a'', JNum 1)], JObj [(''a'', JNum 1)]] \<le> 16"
proof -
  have mem: "[JObj [(''a'', JNum 1)], JObj [(''a'', JNum 1)]]
      \<in> set (split_json_list json_dumps (replicate 5 (JObj [(''a'', JNum 1)])) 16)"
    by code_simp
  from split_json_list_group_bound [rule_format, OF mem] mem show ?thesis
    by simp
qed

text \<open>
  Claim C3. The claim says that no group is empty unless the input is empty, and that
  ten records \<^verbatim>\<open>{"a": 1}\<close> (eight bytes each) split with \<^verbatim>\<open>max_size = 1\<close>
  give exactly ten singleton groups. The loop closes the current group whenever the
  next record does not fit, also when the current group is still empty: on that input
  the code returns eleven groups, the first of them empty.
\<close>

theorem split_json_list_leading_empty_group:
  "split_json_list json_dumps (replicate 10 (JObj [(''a'', JNum 1)])) 1 =
     [] # replicate 10 [JObj [(''a'', JNum 1)]]"
  by code_simp

text \<open>
  Under a negative limit every record is oversized, and the leading empty group has
  size 0, above the limit.
\<close>

lemma split_json_list_negative_limit:
  "split_json_list json_dumps [JObj [(''a'', JNum 1)]] (- 1) = [[], [JObj [(''a'', JNum 1)]]]"
  by code_simp


section \<open>Properties of the query\<close>

text \<open>
  Whatever pages the loop fetches, the frame it returns is the frame it started with:
  the frame of the first page.
\<close>

lemma query_loop_returns_df_aux:
  assumes "query_loop env hdrs cols df response_dict w = Some y"
  shows "case y of (Inr df', w') \<Rightarrow> df' = df | (Inl e, w') \<Rightarrow> True"
  by (rule query_loop.raw_induct
        [where P = "\<lambda>env hdrs cols df response_dict w y.
                      case y of (Inr df', w') \<Rightarrow> df' = df | (Inl e, w') \<Rightarrow> True",
         OF _ assms])
     (auto simp: requests_request_def split: sum.splits if_splits option.splits prod.splits)

lemma query_loop_returns_df:
  "query_loop env hdrs cols df response_dict w = Some (Inr df', w') \<Longrightarrow> df' = df"
  using query_loop_returns_df_aux [of env hdrs cols df response_dict w "(Inr df', w')"] by simp

text \<open>
  So a query that returns a frame returns the frame built from the data of the first
  answer, whatever the later pages hold.
\<close>

lemma query_returns_first_page:
  assumes "query env query_str w = Some (Inr df, w')"
  shows "\<exists>w1 hdrs query_url answer first page output_metadata cols.
           authenticate env False w = (Inr (), w1) \<and>
           bearer_headers ''application/json'' (ctx w1) = Inr hdrs \<and>
           offcore_url (ctx w1) ''/api/v2/query'' = Inr query_url \<and>
           http env (sent w1 @
              [text_request ''POST'' query_url hdrs (json_dumps (JObj [(''sql'', JStr query_str)]))])
             = Some answer \<and>
           json_body answer = Some first \<and>
           getitem first ''metadata'' = Inr output_metadata \<and> keys output_metadata = Inr cols \<and>
           getitem first ''data'' = Inr page \<and>
           DataFrame env page cols = Inr df"
  using assms
  by (auto simp: query_def requests_request_def Let_def
           dest!: query_loop_returns_df
           split: sum.splits option.splits prod.splits if_splits)

text \<open>
  Claim C1. The claim says that the returned frame holds the rows of all fetched pages,
  in arrival order. On a query answered in two pages, with the row \<^verbatim>\<open>[1]\<close> on the
  first page and the row \<^verbatim>\<open>[2]\<close> on the second, the code requests both pages (the
  query URL, then the URL of batch \<^verbatim>\<open>b2\<close>) and returns a frame with the row of the
  first page only.
\<close>

theorem query_keeps_first_page_only:
  "map_option (\<lambda>(r, w). (r, map url (sent w)))
     (query (mock_env two_page_routes []) ''select id from t'' fresh_session) =
   Some (Inr \<lparr>columns = [''id''], rows = [JArr [JNum 1]]\<rparr>,
         [''https://dc.example.com/api/v2/query'', ''https://dc.example.com/api/v2/query/b2''])"
  by code_simp


section \<open>Properties of the streaming upsert\<close>







lemma split_json_list_Nil: "split_json_list dumps [] max_size = []"
  by (simp add: split_json_list_def)

text \<open>
  Claim C10. With an empty record list, \<^verbatim>\<open>data["data"] == []\<close>, the operation
  leaves the session exactly as \<^verbatim>\<open>_authenticate\<close> alone leaves it, so it sends no
  request of its own; it never returns a response object, and it returns \<^verbatim>\<open>None\<close>
  when \<^verbatim>\<open>_authenticate\<close> succeeded and the headers could be built from the token.
\<close>

theorem streaming_upsert_empty:
  "getitem data_arg ''data'' = Inr (JArr []) \<Longrightarrow>
   snd (streaming_upsert env api obj data_arg tm w) = snd (authenticate env False w) \<and>
   (\<forall>r. fst (streaming_upsert env api obj data_arg tm w) \<noteq> Inr (Some r)) \<and>
   (fst (authenticate env False w) = Inr () \<and>
    (\<exists>hdrs. bearer_headers ''application/json'' (ctx (snd (authenticate env False w))) = Inr hdrs)
      \<longrightarrow> fst (streaming_upsert env api obj data_arg tm w) = Inr None)"
  by (cases "authenticate env False w")
     (auto simp: streaming_upsert_def split_json_list_Nil split: sum.splits prod.splits)

theorem streaming_upsert_empty_witness:
  "getitem (JObj [(''data'', JArr [])]) ''data'' = Inr (JArr []) \<and>
   streaming_upsert (mock_env [] []) ''web'' ''orders'' (JObj [(''data'', JArr [])]) False fresh_session
     = (Inr None, fresh_session\<lparr>clock_reads := 1\<rparr>) \<and>
   sent (fresh_session\<lparr>clock_reads := 1\<rparr>) = []"
proof -
  have d: "getitem (JObj [(''data'', JArr [])]) ''data'' = Inr (JArr [])" by simp
  have a: "authenticate (mock_env [] []) False fresh_session = (Inr (), fresh_session\<lparr>clock_reads := 1\<rparr>)"
    by code_simp
  have h: "bearer_headers ''application/json'' (ctx (fresh_session\<lparr>clock_reads := 1\<rparr>)) =
      Inr [(''Content-Type'', ''application/json''), (''Authorization'', ''Bearer token'')]"
    by code_simp
  have s: "sent (fresh_session\<lparr>clock_reads := 1\<rparr>) = []"
    by (simp add: fresh_session_def)
  from streaming_upsert_empty [OF d, of "mock_env [] []" "''web''" "''orders''" False fresh_session] a h
  have "snd (streaming_upsert (mock_env [] []) ''web'' ''orders'' (JObj [(''data'', JArr [])]) False fresh_session)
          = fresh_session\<lparr>clock_reads := 1\<rparr>"
    and "fst (streaming_upsert (mock_env [] []) ''web'' ''orders'' (JObj [(''data'', JArr [])]) False fresh_session)
          = Inr None"
    by simp_all
  then have "streaming_upsert (mock_env [] []) ''web'' ''orders'' (JObj [(''data'', JArr [])]) False fresh_session
     = (Inr None, fresh_session\<lparr>clock_reads := 1\<rparr>)"
    by (simp add: prod_eq_iff)
  with d s show ?thesis by simp
qed





section \<open>Properties of the token manager\<close>





lemma token_exchange_cases:
  assumes "token_exchange env w = (res, w1)"
  shows "clock_reads w1 = clock_reads w"
    and "dne_cdpTokenRefreshTime (ctx w1) = dne_cdpTokenRefreshTime (ctx w)"
  using assms
  by (auto simp: token_exchange_def requests_request_def Let_def
           split: option.splits sum.splits if_splits prod.splits)


lemma get_s2s_access_token_keeps:
  assumes "get_s2s_access_token env jwt_token w = (res, w1)"
  shows "clock_reads w1 = clock_reads w"
    and "dne_cdpTokenRefreshTime (ctx w1) = dne_cdpTokenRefreshTime (ctx w)"
  using assms
  by (auto simp: get_s2s_access_token_def requests_request_def Let_def
           dest: token_exchange_cases
           split: option.splits sum.splits if_splits prod.splits)


lemma authenticate_refresh:
  assumes "refreshing env force_refresh w"
  shows "authenticate env force_refresh w =
     (let w4 = w\<lparr>clock_reads := Suc (Suc (Suc (clock_reads w))),
                   ctx := (ctx w)\<lparr>dne_cdpTokenRefreshTime :=
                                     py_int (time_time env (Suc (clock_reads w)) * 1000)\<rparr>\<rparr>
      in case jwt_encode env (jwt_payload (ctx w4) (time_time env (Suc (Suc (clock_reads w)))))
                (privateKey (ctx w)) of
           None \<Rightarrow> (Inl (LibraryError ''jwt.encode''), w4)
         | Some jwt_token \<Rightarrow>
             get_s2s_access_token env jwt_token
               (w4\<lparr>ctx := (ctx w4)\<lparr>dne_cdpAssertion := Some jwt_token\<rparr>\<rparr>))"
  using assms
  by (auto simp: authenticate_def refreshing_def read_clock_def Let_def split: option.splits)

lemma authenticate_refresh_timestamp:
  assumes "refreshing env force_refresh w"
    and "authenticate env force_refresh w = (res, w1)"
  shows "dne_cdpTokenRefreshTime (ctx w1) = py_int (time_time env (Suc (clock_reads w)) * 1000)"
  using assms(2) unfolding authenticate_refresh [OF assms(1)]
  by (auto simp: Let_def dest: get_s2s_access_token_keeps split: option.splits)



text \<open>
  The outcome of the two exchange steps for each answer of the endpoints, once the
  assertion is signed.
\<close>

lemma token_exchange_answered:
  assumes "dne_cdpAuthToken (ctx w) = Some subject_token"
    and "dne_cdpInstanceUrl (ctx w) = Some (JStr host)"
    and "http env (sent w @ [cdp_request (host @ ''/services/a360/token'') subject_token]) = Some a"
  shows "token_exchange env w =
     (let w1 = w\<lparr>sent := sent w @ [cdp_request (host @ ''/services/a360/token'') subject_token]\<rparr> in
      case json_body a of
        None \<Rightarrow> (Inl JSONDecodeError, w1)
      | Some parsed \<Rightarrow>
          if status_code a \<noteq> 200
          then (Inl (raise_for ''Data Cloud Token Exchange'' (host @ ''/services/a360/token'') a), w1)
          else (case getitem parsed ''access_token'' of
                  Inl e \<Rightarrow> (Inl e, w1)
                | Inr token \<Rightarrow>
                    (case getitem parsed ''instance_url'' of
                       Inl e \<Rightarrow> (Inl e, w1\<lparr>ctx := (ctx w)\<lparr>dne_cdpOffcoreToken := Some token\<rparr>\<rparr>)
                     | Inr instance_url \<Rightarrow>
                         (Inr (), w1\<lparr>ctx := (ctx w)\<lparr>dne_cdpOffcoreToken := Some token,
                                                   dne_cdpOffcoreUrl := Some instance_url\<rparr>\<rparr>))))"
  using assms
  by (simp add: token_exchange_def requests_request_def raise_for_def Let_def
           split: option.splits sum.splits)

lemma get_s2s_access_token_rejected:
  assumes "http env (sent w @ [s2s_request (''https://'' @ loginUrl (ctx w) @ ''/services/oauth2/token'')
              jwt_token]) = Some a"
    and "status_code a \<noteq> 200"
  shows "get_s2s_access_token env jwt_token w =
     (Inl (case json_body a of
             None \<Rightarrow> JSONDecodeError
           | Some parsed \<Rightarrow>
               raise_for ''Get S2S Access Token''
                 (''https://'' @ loginUrl (ctx w) @ ''/services/oauth2/token'') a),
      w\<lparr>sent := sent w @ [s2s_request (''https://'' @ loginUrl (ctx w) @ ''/services/oauth2/token'')
                            jwt_token]\<rparr>)"
  using assms
  by (simp add: get_s2s_access_token_def requests_request_def raise_for_def Let_def
           split: option.splits)

lemma get_s2s_access_token_accepted:
  assumes "http env (sent w @ [s2s_request (''https://'' @ loginUrl (ctx w) @ ''/services/oauth2/token'')
              jwt_token]) = Some a"
    and "status_code a = 200"
    and "json_body a = Some parsed"
    and "getitem parsed ''access_token'' = Inr token"
    and "getitem parsed ''instance_url'' = Inr instance_url"
  shows "get_s2s_access_token env jwt_token w =
     token_exchange env
       (w\<lparr>sent := sent w @ [s2s_request (''https://'' @ loginUrl (ctx w) @ ''/services/oauth2/token'')
                             jwt_token],
          ctx := (ctx w)\<lparr>dne_cdpAuthToken := Some token, dne_cdpInstanceUrl := Some instance_url\<rparr>\<rparr>)"
  using assms
  by (simp add: get_s2s_access_token_def requests_request_def Let_def)

lemma authenticate_first_rejected:
  assumes "refreshing env force_refresh w"
    and "jwt_encode env
           (jwt_payload ((ctx w)\<lparr>dne_cdpTokenRefreshTime :=
                                   py_int (time_time env (Suc (clock_reads w)) * 1000)\<rparr>)
              (time_time env (Suc (Suc (clock_reads w)))))
           (privateKey (ctx w)) = Some jwt_token"
    and "http env (sent w @ [s2s_request (''https://'' @ loginUrl (ctx w) @ ''/services/oauth2/token'')
              jwt_token]) = Some a"
    and "status_code a \<noteq> 200"
  shows "authenticate env force_refresh w =
     (Inl (case json_body a of
             None \<Rightarrow> JSONDecodeError
           | Some parsed \<Rightarrow>
               raise_for ''Get S2S Access Token''
                 (''https://'' @ loginUrl (ctx w) @ ''/services/oauth2/token'') a),
      w\<lparr>clock_reads := Suc (Suc (Suc (clock_reads w))),
        sent := sent w @ [s2s_request (''https://'' @ loginUrl (ctx w) @ ''/services/oauth2/token'')
                            jwt_token],
        ctx := (ctx w)\<lparr>dne_cdpTokenRefreshTime := py_int (time_time env (Suc (clock_reads w)) * 1000),
                        dne_cdpAssertion := Some jwt_token\<rparr>\<rparr>)"
proof -
  let ?w5 = "w\<lparr>clock_reads := Suc (Suc (Suc (clock_reads w))),
        ctx := (ctx w)\<lparr>dne_cdpTokenRefreshTime := py_int (time_time env (Suc (clock_reads w)) * 1000),
                        dne_cdpAssertion := Some jwt_token\<rparr>\<rparr>"
  have run: "authenticate env force_refresh w = get_s2s_access_token env jwt_token ?w5"
    unfolding authenticate_refresh [OF assms(1)] using assms(2) by (simp add: Let_def)
  have a: "http env (sent ?w5 @ [s2s_request (''https://'' @ loginUrl (ctx ?w5) @ ''/services/oauth2/token'')
              jwt_token]) = Some a"
    using assms(3) by simp
  show ?thesis
    unfolding run get_s2s_access_token_rejected [OF a assms(4)] by (simp split: option.splits)
qed

lemma authenticate_second_step:
  assumes "refreshing env force_refresh w"
    and "jwt_encode env
           (jwt_payload ((ctx w)\<lparr>dne_cdpTokenRefreshTime :=
                                   py_int (time_time env (Suc (clock_reads w)) * 1000)\<rparr>)
              (time_time env (Suc (Suc (clock_reads w)))))
           (privateKey (ctx w)) = Some jwt_token"
    and "http env (sent w @ [s2s_request (''https://'' @ loginUrl (ctx w) @ ''/services/oauth2/token'')
              jwt_token]) = Some a1"
    and "status_code a1 = 200"
    and "json_body a1 = Some parsed1"
    and "getitem parsed1 ''access_token'' = Inr token"
    and "getitem parsed1 ''instance_url'' = Inr (JStr host)"
    and "http env (sent w @ [s2s_request (''https://'' @ loginUrl (ctx w) @ ''/services/oauth2/token'')
              jwt_token, cdp_request (host @ ''/services/a360/token'') token]) = Some a2"
  shows "authenticate env force_refresh w =
     (let c1 = (ctx w)\<lparr>dne_cdpTokenRefreshTime := py_int (time_time env (Suc (clock_reads w)) * 1000),
                        dne_cdpAssertion := Some jwt_token,
                        dne_cdpAuthToken := Some token,
                        dne_cdpInstanceUrl := Some (JStr host)\<rparr>;
          w1 = w\<lparr>clock_reads := Suc (Suc (Suc (clock_reads w))),
                 sent := sent w @ [s2s_request (''https://'' @ loginUrl (ctx w) @ ''/services/oauth2/token'')
                                     jwt_token,
                                   cdp_request (host @ ''/services/a360/token'') token]\<rparr> in
      case json_body a2 of
        None \<Rightarrow> (Inl JSONDecodeError, w1\<lparr>ctx := c1\<rparr>)
      | Some parsed \<Rightarrow>
          if status_code a2 \<noteq> 200
          then (Inl (raise_for ''Data Cloud Token Exchange'' (host @ ''/services/a360/token'') a2),
                w1\<lparr>ctx := c1\<rparr>)
          else (case getitem parsed ''access_token'' of
                  Inl e \<Rightarrow> (Inl e, w1\<lparr>ctx := c1\<rparr>)
                | Inr token2 \<Rightarrow>
                    (case getitem parsed ''instance_url'' of
                       Inl e \<Rightarrow> (Inl e, w1\<lparr>ctx := c1\<lparr>dne_cdpOffcoreToken := Some token2\<rparr>\<rparr>)
                     | Inr instance_url \<Rightarrow>
                         (Inr (), w1\<lparr>ctx := c1\<lparr>dne_cdpOffcoreToken := Some token2,
                                                 dne_cdpOffcoreUrl := Some instance_url\<rparr>\<rparr>))))"
proof -
  let ?u = "''https://'' @ loginUrl (ctx w) @ ''/services/oauth2/token''"
  let ?w5 = "w\<lparr>clock_reads := Suc (Suc (Suc (clock_reads w))),
        ctx := (ctx w)\<lparr>dne_cdpTokenRefreshTime := py_int (time_time env (Suc (clock_reads w)) * 1000),
                        dne_cdpAssertion := Some jwt_token\<rparr>\<rparr>"
  let ?w6 = "?w5\<lparr>sent := sent ?w5 @ [s2s_request (''https://'' @ loginUrl (ctx ?w5) @ ''/services/oauth2/token'')
                             jwt_token],
          ctx := (ctx ?w5)\<lparr>dne_cdpAuthToken := Some token, dne_cdpInstanceUrl := Some (JStr host)\<rparr>\<rparr>"
  have run: "authenticate env force_refresh w = get_s2s_access_token env jwt_token ?w5"
    unfolding authenticate_refresh [OF assms(1)] using assms(2) by (simp add: Let_def)
  have a: "http env (sent ?w5 @ [s2s_request (''https://'' @ loginUrl (ctx ?w5) @ ''/services/oauth2/token'')
              jwt_token]) = Some a1"
    using assms(3) by simp
  have step: "get_s2s_access_token env jwt_token ?w5 = token_exchange env ?w6"
    by (rule get_s2s_access_token_accepted [OF a assms(4,5,6,7)])
  have t: "dne_cdpAuthToken (ctx ?w6) = Some token" by simp
  have i: "dne_cdpInstanceUrl (ctx ?w6) = Some (JStr host)" by simp
  have b: "http env (sent ?w6 @ [cdp_request (host @ ''/services/a360/token'') token]) = Some a2"
    using assms(8) by simp
  show ?thesis
    unfolding run step token_exchange_answered [OF t i b]
    by (simp add: Let_def split: option.splits sum.splits)
qed




text \<open>
  The claim of C6 as stated fails on a new session whose login endpoint answers 401:
  \<^verbatim>\<open>_authenticate\<close> raises the structured error, and the timestamp, 0 before the
  call, is the time of the call after it, although no platform token was obtained. A
  second call then finds the token fresh and returns without any request. When the
  login succeeds and the second exchange step is answered 403, the call raises and the
  new timestamp, the primary token and the instance URL stay in the context.
\<close>

theorem authenticate_failure_keeps_timestamp:
  "fst (authenticate (mock_env rejecting_routes []) False new_session) =
     Inl (SalesforceDataCloudError ''Get S2S Access Token''
            ''https://login.salesforce.com/services/oauth2/token'' 401
            (json_dumps (JObj [(''error'', JStr ''invalid_grant'')]))) \<and>
   dne_cdpTokenRefreshTime (ctx new_session) = 0 \<and>
   dne_cdpTokenRefreshTime (ctx (snd (authenticate (mock_env rejecting_routes []) False new_session)))
     = 1700000000001 \<and>
   dne_cdpOffcoreToken (ctx (snd (authenticate (mock_env rejecting_routes []) False new_session)))
     = None \<and>
   fst (authenticate (mock_env rejecting_routes []) False
          (snd (authenticate (mock_env rejecting_routes []) False new_session))) = Inr () \<and>
   length (sent (snd (authenticate (mock_env rejecting_routes []) False
          (snd (authenticate (mock_env rejecting_routes []) False new_session))))) = 1 \<and>
   authenticate (mock_env exchange_rejecting_routes []) False new_session =
     (Inl (SalesforceDataCloudError ''Data Cloud Token Exchange''
             ''https://core.example.com/services/a360/token'' 403
             (json_dumps (JObj [(''error'', JStr ''forbidden'')]))),
      new_session
        \<lparr>clock_reads := 3,
         sent := [s2s_request ''https://login.salesforce.com/services/oauth2/token'' ''assertion'',
                  cdp_request ''https://core.example.com/services/a360/token'' (JStr ''core'')],
         ctx := (ctx new_session)\<lparr>dne_cdpTokenRefreshTime := 1700000000001,
                                  dne_cdpAssertion := Some ''assertion'',
                                  dne_cdpAuthToken := Some (JStr ''core''),
                                  dne_cdpInstanceUrl := Some (JStr ''https://core.example.com'')\<rparr>\<rparr>)"
  by code_simp

lemma getitem_error: "getitem v k = Inl e \<Longrightarrow> e = KeyError k \<or> e = TypeError"
  by (cases v) (auto split: option.splits)

lemma str_concat_error: "str_concat p v q = Inl e \<Longrightarrow> e = TypeError"
  by (cases v) auto

lemma token_exchange_structured:
  assumes "token_exchange env w = (Inl (SalesforceDataCloudError operation u st content), w1)"
  shows "st \<noteq> 200 \<and> operation = ''Data Cloud Token Exchange'' \<and>
         dne_cdpOffcoreToken (ctx w1) = dne_cdpOffcoreToken (ctx w) \<and>
         dne_cdpOffcoreUrl (ctx w1) = dne_cdpOffcoreUrl (ctx w)"
  using assms
  by (auto simp: token_exchange_def requests_request_def Let_def
           dest: getitem_error str_concat_error
           split: option.splits sum.splits if_splits prod.splits)

lemma get_s2s_access_token_structured:
  assumes "get_s2s_access_token env jwt_token w = (Inl (SalesforceDataCloudError operation u st content), w1)"
  shows "st \<noteq> 200 \<and>
         dne_cdpOffcoreToken (ctx w1) = dne_cdpOffcoreToken (ctx w) \<and>
         dne_cdpOffcoreUrl (ctx w1) = dne_cdpOffcoreUrl (ctx w)"
  using assms
  by (auto simp: get_s2s_access_token_def requests_request_def Let_def
           dest: getitem_error
           dest!: token_exchange_structured
           split: option.splits sum.splits if_splits prod.splits)

lemma authenticate_structured:
  assumes "refreshing env force_refresh w"
    and "authenticate env force_refresh w = (Inl (SalesforceDataCloudError operation u st content), w1)"
  shows "st \<noteq> 200 \<and>
         dne_cdpOffcoreToken (ctx w1) = dne_cdpOffcoreToken (ctx w) \<and>
         dne_cdpOffcoreUrl (ctx w1) = dne_cdpOffcoreUrl (ctx w)"
  using assms(2) unfolding authenticate_refresh [OF assms(1)]
  by (auto simp: Let_def dest!: get_s2s_access_token_structured split: option.splits)

text \<open>
  Claim C6, amended. When \<^verbatim>\<open>_authenticate\<close> refreshes, it stores the new timestamp
  before the first request, so the timestamp is that of the call in every outcome, also
  when the exchange fails; and whenever the call raises a structured error, the status
  is not 200 and the platform token and URL (\<^verbatim>\<open>dne_cdpOffcoreToken\<close>,
  \<^verbatim>\<open>dne_cdpOffcoreUrl\<close>) are as before the call. Once the assertion is signed: when
  the first exchange request is answered with a status other than 200, the call raises,
  the structured error of that step with the status and body of the answer when the
  body is JSON and the JSON decode error when it is not; it has sent that one request,
  and the context is the one before the call with the new timestamp and the new
  assertion. When the first request is answered 200 with an \<^verbatim>\<open>access_token\<close> and a
  string \<^verbatim>\<open>instance_url\<close> and the second request is answered with a status other than
  200, the call raises in the same way for the second step; it has sent the two
  requests, and the context is the one before the call with the new timestamp, the new
  assertion, the new primary token and the new instance URL.
\<close>

theorem authenticate_failure_state:
  assumes "refreshing env force_refresh w"
  shows
    "(\<forall>res w1. authenticate env force_refresh w = (res, w1) \<longrightarrow>
        dne_cdpTokenRefreshTime (ctx w1) = py_int (time_time env (Suc (clock_reads w)) * 1000) \<and>
        (\<forall>operation u st content. res = Inl (SalesforceDataCloudError operation u st content) \<longrightarrow>
           st \<noteq> 200 \<and>
           dne_cdpOffcoreToken (ctx w1) = dne_cdpOffcoreToken (ctx w) \<and>
           dne_cdpOffcoreUrl (ctx w1) = dne_cdpOffcoreUrl (ctx w))) \<and>
     (\<forall>jwt_token.
        jwt_encode env
        (jwt_payload ((ctx w)\<lparr>dne_cdpTokenRefreshTime :=
                                py_int (time_time env (Suc (clock_reads w)) * 1000)\<rparr>)
           (time_time env (Suc (Suc (clock_reads w)))))
        (privateKey (ctx w)) = Some jwt_token \<longrightarrow>
        (\<forall>a. http env (sent w @ [s2s_request (''https://'' @ loginUrl (ctx w) @ ''/services/oauth2/token'') jwt_token]) = Some a \<and>
             status_code a \<noteq> 200 \<longrightarrow>
           authenticate env force_refresh w =
             (Inl (case json_body a of
                     None \<Rightarrow> JSONDecodeError
                   | Some parsed \<Rightarrow>
                       raise_for ''Get S2S Access Token''
                         (''https://'' @ loginUrl (ctx w) @ ''/services/oauth2/token'') a),
              w\<lparr>clock_reads := Suc (Suc (Suc (clock_reads w))),
                sent := sent w @ [s2s_request (''https://'' @ loginUrl (ctx w) @ ''/services/oauth2/token'') jwt_token],
                ctx := (ctx w)\<lparr>dne_cdpTokenRefreshTime :=
                                  py_int (time_time env (Suc (clock_reads w)) * 1000),
                                dne_cdpAssertion := Some jwt_token\<rparr>\<rparr>)) \<and>
        (\<forall>a1 parsed1 token host a2.
           http env (sent w @ [s2s_request (''https://'' @ loginUrl (ctx w) @ ''/services/oauth2/token'') jwt_token]) = Some a1 \<and>
           status_code a1 = 200 \<and> json_body a1 = Some parsed1 \<and>
           getitem parsed1 ''access_token'' = Inr token \<and>
           getitem parsed1 ''instance_url'' = Inr (JStr host) \<and>
           http env (sent w @ [s2s_request (''https://'' @ loginUrl (ctx w) @ ''/services/oauth2/token'') jwt_token,
                               cdp_request (host @ ''/services/a360/token'') token]) = Some a2 \<and>
           status_code a2 \<noteq> 200 \<longrightarrow>
           authenticate env force_refresh w =
             (Inl (case json_body a2 of
                     None \<Rightarrow> JSONDecodeError
                   | Some parsed \<Rightarrow>
                       raise_for ''Data Cloud Token Exchange'' (host @ ''/services/a360/token'') a2),
              w\<lparr>clock_reads := Suc (Suc (Suc (clock_reads w))),
                sent := sent w @ [s2s_request (''https://'' @ loginUrl (ctx w) @ ''/services/oauth2/token'') jwt_token,
                                  cdp_request (host @ ''/services/a360/token'') token],
                ctx := (ctx w)\<lparr>dne_cdpTokenRefreshTime :=
                                  py_int (time_time env (Suc (clock_reads w)) * 1000),
                                dne_cdpAssertion := Some jwt_token,
                                dne_cdpAuthToken := Some token,
                                dne_cdpInstanceUrl := Some (JStr host)\<rparr>\<rparr>)))"
proof (intro conjI allI impI)
  fix res w1
  assume run: "authenticate env force_refresh w = (res, w1)"
  show "dne_cdpTokenRefreshTime (ctx w1) = py_int (time_time env (Suc (clock_reads w)) * 1000)"
    by (rule authenticate_refresh_timestamp [OF assms run])
  fix operation u st content
  assume "res = Inl (SalesforceDataCloudError operation u st content)"
  with run have e: "authenticate env force_refresh w =
      (Inl (SalesforceDataCloudError operation u st content), w1)"
    by simp
  from authenticate_structured [OF assms e]
  show "st \<noteq> 200" and "dne_cdpOffcoreToken (ctx w1) = dne_cdpOffcoreToken (ctx w)"
    and "dne_cdpOffcoreUrl (ctx w1) = dne_cdpOffcoreUrl (ctx w)"
    by simp_all
next
  fix jwt_token a
  assume j: "jwt_encode env
        (jwt_payload ((ctx w)\<lparr>dne_cdpTokenRefreshTime :=
                                py_int (time_time env (Suc (clock_reads w)) * 1000)\<rparr>)
           (time_time env (Suc (Suc (clock_reads w)))))
        (privateKey (ctx w)) = Some jwt_token"
    and h: "http env (sent w @ [s2s_request (''https://'' @ loginUrl (ctx w) @ ''/services/oauth2/token'') jwt_token]) = Some a \<and>
             status_code a \<noteq> 200"
  from h have h1: "http env (sent w @ [s2s_request (''https://'' @ loginUrl (ctx w) @ ''/services/oauth2/token'') jwt_token]) = Some a"
    and h2: "status_code a \<noteq> 200"
    by simp_all
  show "authenticate env force_refresh w =
             (Inl (case json_body a of
                     None \<Rightarrow> JSONDecodeError
                   | Some parsed \<Rightarrow>
                       raise_for ''Get S2S Access Token''
                         (''https://'' @ loginUrl (ctx w) @ ''/services/oauth2/token'') a),
              w\<lparr>clock_reads := Suc (Suc (Suc (clock_reads w))),
                sent := sent w @ [s2s_request (''https://'' @ loginUrl (ctx w) @ ''/services/oauth2/token'') jwt_token],
                ctx := (ctx w)\<lparr>dne_cdpTokenRefreshTime :=
                                  py_int (time_time env (Suc (clock_reads w)) * 1000),
                                dne_cdpAssertion := Some jwt_token\<rparr>\<rparr>)"
    by (rule authenticate_first_rejected [OF assms j h1 h2])
next
  fix jwt_token a1 parsed1 token host a2
  assume j: "jwt_encode env
        (jwt_payload ((ctx w)\<lparr>dne_cdpTokenRefreshTime :=
                                py_int (time_time env (Suc (clock_reads w)) * 1000)\<rparr>)
           (time_time env (Suc (Suc (clock_reads w)))))
        (privateKey (ctx w)) = Some jwt_token"
    and h: "http env (sent w @ [s2s_request (''https://'' @ loginUrl (ctx w) @ ''/services/oauth2/token'') jwt_token]) = Some a1 \<and>
           status_code a1 = 200 \<and> json_body a1 = Some parsed1 \<and>
           getitem parsed1 ''access_token'' = Inr token \<and>
           getitem parsed1 ''instance_url'' = Inr (JStr host) \<and>
           http env (sent w @ [s2s_request (''https://'' @ loginUrl (ctx w) @ ''/services/oauth2/token'') jwt_token,
                               cdp_request (host @ ''/services/a360/token'') token]) = Some a2 \<and>
           status_code a2 \<noteq> 200"
  from h have h1: "http env (sent w @ [s2s_request (''https://'' @ loginUrl (ctx w) @ ''/services/oauth2/token'') jwt_token]) = Some a1"
    and h2: "status_code a1 = 200" and h3: "json_body a1 = Some parsed1"
    and h4: "getitem parsed1 ''access_token'' = Inr token"
    and h5: "getitem parsed1 ''instance_url'' = Inr (JStr host)"
    and h6: "http env (sent w @ [s2s_request (''https://'' @ loginUrl (ctx w) @ ''/services/oauth2/token'') jwt_token,
                               cdp_request (host @ ''/services/a360/token'') token]) = Some a2"
    and h7: "status_code a2 \<noteq> 200"
    by simp_all
  from h7 show "authenticate env force_refresh w =
             (Inl (case json_body a2 of
                     None \<Rightarrow> JSONDecodeError
                   | Some parsed \<Rightarrow>
                       raise_for ''Data Cloud Token Exchange'' (host @ ''/services/a360/token'') a2),
              w\<lparr>clock_reads := Suc (Suc (Suc (clock_reads w))),
                sent := sent w @ [s2s_request (''https://'' @ loginUrl (ctx w) @ ''/services/oauth2/token'') jwt_token,
                                  cdp_request (host @ ''/services/a360/token'') token],
                ctx := (ctx w)\<lparr>dne_cdpTokenRefreshTime :=
                                  py_int (time_time env (Suc (clock_reads w)) * 1000),
                                dne_cdpAssertion := Some jwt_token,
                                dne_cdpAuthToken := Some token,
                                dne_cdpInstanceUrl := Some (JStr host)\<rparr>\<rparr>)"
    unfolding authenticate_second_step [OF assms j h1 h2 h3 h4 h5 h6]
    by (simp add: Let_def split: option.splits)
qed

theorem authenticate_failure_state_witness:
  "refreshing (mock_env rejecting_routes []) False new_session \<and>
   authenticate (mock_env rejecting_routes []) False new_session =
     (Inl (SalesforceDataCloudError ''Get S2S Access Token''
            ''https://login.salesforce.com/services/oauth2/token'' 401
            (json_dumps (JObj [(''error'', JStr ''invalid_grant'')]))),
      new_session
        \<lparr>clock_reads := 3,
         sent := [s2s_request ''https://login.salesforce.com/services/oauth2/token'' ''assertion''],
         ctx := (ctx new_session)\<lparr>dne_cdpTokenRefreshTime := 1700000000001,
                                  dne_cdpAssertion := Some ''assertion''\<rparr>\<rparr>)"
proof -
  let ?E = "mock_env rejecting_routes []"
  let ?u = "''https://login.salesforce.com/services/oauth2/token''"
  let ?r = "s2s_request ?u ''assertion''"
  let ?a = "json_response 401 (JObj [(''error'', JStr ''invalid_grant'')])"
  have r: "refreshing ?E False new_session" by code_simp
  have j: "jwt_encode ?E
        (jwt_payload ((ctx new_session)\<lparr>dne_cdpTokenRefreshTime :=
                                py_int (time_time ?E (Suc (clock_reads new_session)) * 1000)\<rparr>)
           (time_time ?E (Suc (Suc (clock_reads new_session)))))
        (privateKey (ctx new_session)) = Some ''assertion''"
    by (simp add: mock_env_def)
  have l: "''https://'' @ loginUrl (ctx new_session) @ ''/services/oauth2/token'' = ?u"
    by code_simp
  have h: "http ?E (sent new_session @ [?r]) = Some ?a" by code_simp
  have c: "status_code ?a \<noteq> 200" by (simp add: json_response_def)
  have b: "json_body ?a = Some (JObj [(''error'', JStr ''invalid_grant'')])"
    by (simp add: json_response_def)
  have e: "raise_for ''Get S2S Access Token'' ?u ?a =
      SalesforceDataCloudError ''Get S2S Access Token'' ?u 401
        (json_dumps (JObj [(''error'', JStr ''invalid_grant'')]))"
    by (simp add: raise_for_def json_response_def)
  have k: "py_int (time_time ?E (Suc (clock_reads new_session)) * 1000) = 1700000000001"
    by code_simp
  have n: "Suc (Suc (Suc (clock_reads new_session))) = 3" "sent new_session = []"
    by (simp_all add: new_session_def)
  from authenticate_failure_state [OF r, THEN conjunct2, rule_format, OF j, THEN conjunct1,
      rule_format, of ?a] h c l
  have "authenticate ?E False new_session =
     (Inl (case json_body ?a of
             None \<Rightarrow> JSONDecodeError
           | Some parsed \<Rightarrow> raise_for ''Get S2S Access Token'' ?u ?a),
      new_session
        \<lparr>clock_reads := Suc (Suc (Suc (clock_reads new_session))),
         sent := sent new_session @ [?r],
         ctx := (ctx new_session)\<lparr>dne_cdpTokenRefreshTime :=
                                    py_int (time_time ?E (Suc (clock_reads new_session)) * 1000),
                                  dne_cdpAssertion := Some ''assertion''\<rparr>\<rparr>)"
    by (simp split: option.splits)
  with r b e k n show ?thesis by simp
qed


section \<open>Properties of the status checks\<close>















section \<open>Properties of the bulk operation\<close>

lemma patches_simps [simp]:
  "patches [] = []"
  "patches (xs @ ys) = patches xs @ patches ys"
  "patches (r # xs) = (if http_method r = ''PATCH'' then r # patches xs else patches xs)"
  by (simp_all add: patches_def)















end
